theory Spec2Isabelle
  imports Complex_Main "HOL-Library.Word" "HOL-Library.Char_ord" "HOL-Library.List_Lexorder"
    "HOL-Library.Product_Lexorder"
begin

unbundle bit_operations_syntax

section \<open>Common definitions (common/TriBFTDefs.h)\<close>

text \<open>
  Node identifiers are strings, shard identifiers are C++ \<^verbatim>\<open>int\<close>s, block heights and
  view numbers are \<^verbatim>\<open>uint64_t\<close> (so \<open>+ 1\<close> and \<open>- 1\<close> wrap), reputation scores and
  coordinates are \<^verbatim>\<open>double\<close>s, idealised here as reals. The simulation clock
  \<^verbatim>\<open>simTime()\<close> is read as an explicit argument \<open>now\<close>.
\<close>

type_synonym NodeID = string
type_synonym ShardID = int
type_synonym BlockHeight = "64 word"
type_synonym ViewNumber = "64 word"
type_synonym ReputationScore = real
type_synonym simtime = int

datatype ConsensusPhase = IDLE | PREPARE | PRE_COMMIT | COMMIT

fun phase_int :: "ConsensusPhase \<Rightarrow> int" where
  "phase_int IDLE = 0"
| "phase_int PREPARE = 1"
| "phase_int PRE_COMMIT = 2"
| "phase_int COMMIT = 3"

record Transaction =
  txID :: string
  sender :: NodeID
  receiver :: NodeID
  tx_value :: real
  tx_timestamp :: simtime
  tx_data :: string

record ConsensusProposal =
  proposalID :: string
  blockHeight :: BlockHeight
  viewNumber :: ViewNumber
  leaderID :: NodeID
  shardID :: ShardID
  proposalTime :: simtime
  transactions :: "Transaction list"
  blockHash :: string

record VoteInfo =
  v_proposalID :: string
  voterID :: NodeID
  v_phase :: ConsensusPhase
  approve :: bool
  voteTime :: simtime
  signature :: string

section \<open>HotStuff consensus engine (consensus/HotStuffEngine.cc)\<close>

text \<open>
  The engine's fields, named as in the class without the trailing underscore
  (\<open>self_nodeID\<close> and \<open>self_shardID\<close> for \<^verbatim>\<open>nodeID_\<close> and \<^verbatim>\<open>shardID_\<close>). The vote callback is an external collaborator: whether one is
  installed is the flag \<open>voteCallbackSet\<close>, and the votes handed to it are collected, in
  order, in \<open>votesOut\<close>. Log output has no effect on the engine and is left out, as are
  the fields that the operations below neither read nor write (quorum certificates,
  committed blocks, the other callbacks and metrics).
\<close>

record HotStuffEngine =
  self_nodeID :: NodeID
  self_shardID :: ShardID
  shardSize :: int
  currentPhase :: ConsensusPhase
  currentView :: ViewNumber
  currentHeight :: BlockHeight
  previousBlockHash :: string
  currentProposal :: ConsensusProposal
  hasActiveProposal :: bool
  voteStore :: "string \<rightharpoonup> (ConsensusPhase \<rightharpoonup> VoteInfo list)"
  consensusStartTime :: simtime
  failedConsensus :: int
  voteCallbackSet :: bool
  votesOut :: "VoteInfo list"

definition defaultProposal :: ConsensusProposal where
  "defaultProposal = \<lparr> proposalID = [], blockHeight = 0, viewNumber = 0, leaderID = [],
     shardID = -1, proposalTime = 0, transactions = [], blockHash = [] \<rparr>"

text \<open>The constructor followed by \<^verbatim>\<open>initialize(nodeID, shardID)\<close>.\<close>

definition initialize :: "NodeID \<Rightarrow> ShardID \<Rightarrow> HotStuffEngine" where
  "initialize n sh = \<lparr> self_nodeID = n, self_shardID = sh, shardSize = 0, currentPhase = IDLE,
     currentView = 0, currentHeight = 0, previousBlockHash = [],
     currentProposal = defaultProposal, hasActiveProposal = False,
     voteStore = Map.empty, consensusStartTime = 0, failedConsensus = 0,
     voteCallbackSet = False, votesOut = [] \<rparr>"

definition setShardSize :: "int \<Rightarrow> HotStuffEngine \<Rightarrow> HotStuffEngine" where
  "setShardSize sz s = s\<lparr> shardSize := sz \<rparr>"

definition setVoteCallback :: "HotStuffEngine \<Rightarrow> HotStuffEngine" where
  "setVoteCallback s = s\<lparr> voteCallbackSet := True \<rparr>"

text \<open>\<^verbatim>\<open>getQuorumSize\<close> returns the literal 2 and does not read \<^verbatim>\<open>shardSize_\<close>.\<close>

definition getQuorumSize :: "HotStuffEngine \<Rightarrow> int" where
  "getQuorumSize s = 2"

text \<open>
  The quorum formula in the words of the specification, for comparison:
  \<open>ceil(2 N / 3) + 1\<close> with a floor of 2.
\<close>

definition spec_quorum :: "int \<Rightarrow> int" where
  "spec_quorum N = max 2 (\<lceil>2 * real_of_int N / 3\<rceil> + 1)"

definition validateProposal :: "HotStuffEngine \<Rightarrow> ConsensusProposal \<Rightarrow> bool" where
  "validateProposal s p =
     (if proposalID p = [] \<or> blockHash p = [] then False
      else if blockHeight p \<noteq> currentHeight s + 1 then False
      else if viewNumber p < currentView s then False
      else if transactions p = [] then False
      else list_all (\<lambda>tx. \<not> (txID tx = [] \<or> sender tx = [])) (transactions p))"

definition sendVote ::
  "simtime \<Rightarrow> HotStuffEngine \<Rightarrow> ConsensusProposal \<Rightarrow> ConsensusPhase \<Rightarrow> bool \<Rightarrow> HotStuffEngine"
where
  "sendVote now s p ph ap =
     (let vote = \<lparr> v_proposalID = proposalID p, voterID = self_nodeID s, v_phase = ph,
                    approve = ap, voteTime = now,
                    signature = self_nodeID s @ ''_'' @ proposalID p \<rparr>
      in if voteCallbackSet s then s\<lparr> votesOut := votesOut s @ [vote] \<rparr> else s)"

definition handleProposal ::
  "simtime \<Rightarrow> HotStuffEngine \<Rightarrow> ConsensusProposal \<Rightarrow> HotStuffEngine"
where
  "handleProposal now s p =
     (if \<not> validateProposal s p then sendVote now s p PREPARE False
      else sendVote now
             (s\<lparr> currentProposal := p, hasActiveProposal := True,
                 currentPhase := PREPARE, consensusStartTime := now \<rparr>)
             p PREPARE True)"

text \<open>
  The vote store is \<^verbatim>\<open>map<string, map<ConsensusPhase, vector<VoteInfo>>>\<close>.
  \<open>pushVote\<close> is \<^verbatim>\<open>voteStore_[vote.proposalID][vote.phase].push_back(vote)\<close>: both
  \<^verbatim>\<open>operator[]\<close> calls create a missing entry. \<open>storedVotes\<close> is the lookup of
  \<^verbatim>\<open>createQC\<close>: the stored vector, or the empty one when an entry is missing.
\<close>

definition pushVote ::
  "(string \<rightharpoonup> (ConsensusPhase \<rightharpoonup> VoteInfo list)) \<Rightarrow> VoteInfo \<Rightarrow>
   (string \<rightharpoonup> (ConsensusPhase \<rightharpoonup> VoteInfo list))"
where
  "pushVote store v =
     (let inner = (case store (v_proposalID v) of None \<Rightarrow> Map.empty | Some m \<Rightarrow> m);
          votes = (case inner (v_phase v) of None \<Rightarrow> [] | Some vs \<Rightarrow> vs)
      in store(v_proposalID v \<mapsto> inner(v_phase v \<mapsto> votes @ [v])))"

definition storedVotes :: "HotStuffEngine \<Rightarrow> string \<Rightarrow> ConsensusPhase \<Rightarrow> VoteInfo list" where
  "storedVotes s pid ph =
     (case voteStore s pid of
        None \<Rightarrow> []
      | Some m \<Rightarrow> (case m ph of None \<Rightarrow> [] | Some vs \<Rightarrow> vs))"

text \<open>
  The bodies of \<^verbatim>\<open>hasQuorum\<close> and \<^verbatim>\<open>advancePhase\<close> are withheld in the repository
  (placeholders that return \<^verbatim>\<open>false\<close> and do nothing): \<open>hasQuorum\<close> and
  \<open>advancePhase\<close> below are these placeholders. \<open>handleVote\<close> takes both as arguments
  \<open>hq\<close> and \<open>adv\<close>, so what is proved of it holds for every implementation of the
  two; \<open>hq\<close> is read as a query without effect on the engine. The branches for a late
  and for a future vote only print.
\<close>

definition hasQuorum :: "HotStuffEngine \<Rightarrow> string \<Rightarrow> ConsensusPhase \<Rightarrow> bool" where
  "hasQuorum s pid ph = False"

definition advancePhase :: "HotStuffEngine \<Rightarrow> HotStuffEngine" where
  "advancePhase s = s"

definition handleVote ::
  "(HotStuffEngine \<Rightarrow> string \<Rightarrow> ConsensusPhase \<Rightarrow> bool) \<Rightarrow> (HotStuffEngine \<Rightarrow> HotStuffEngine) \<Rightarrow>
   HotStuffEngine \<Rightarrow> VoteInfo \<Rightarrow> HotStuffEngine"
where
  "handleVote hq adv s v =
     (if \<not> hasActiveProposal s \<or> v_proposalID v \<noteq> proposalID (currentProposal s) then s
      else
        let s1 = s\<lparr> voteStore := pushVote (voteStore s) v \<rparr> in
        if v_phase v = currentPhase s1 then
          (if hq s1 (v_proposalID v) (currentPhase s1) then adv s1 else s1)
        else if phase_int (v_phase v) < phase_int (currentPhase s1) then s1
        else s1)"

text \<open>The number of votes of one voter among stored votes.\<close>

definition votesOf :: "NodeID \<Rightarrow> VoteInfo list \<Rightarrow> nat" where
  "votesOf n vs = length (filter (\<lambda>v. voterID v = n) vs)"

text \<open>Concrete inputs used at the evaluations below.\<close>

definition tx1 :: Transaction where
  "tx1 = \<lparr> txID = ''t1'', sender = ''alice'', receiver = ''bob'', tx_value = 1,
           tx_timestamp = 0, tx_data = [] \<rparr>"

definition prop1 :: ConsensusProposal where
  "prop1 = \<lparr> proposalID = ''p1'', blockHeight = 1, viewNumber = 0, leaderID = ''n1'',
             shardID = 0, proposalTime = 0, transactions = [tx1], blockHash = ''h1'' \<rparr>"

definition replica0 :: HotStuffEngine where
  "replica0 = setVoteCallback (initialize ''n0'' 0)"

definition voteA :: VoteInfo where
  "voteA = \<lparr> v_proposalID = ''p1'', voterID = ''A'', v_phase = PREPARE, approve = True,
             voteTime = 0, signature = ''A_p1'' \<rparr>"

section \<open>Ordered maps\<close>

text \<open>
  A \<^verbatim>\<open>std::map\<close> whose iteration order matters is an association list kept in
  ascending key order: \<open>map_of\<close> is \<^verbatim>\<open>find\<close>, \<open>map_put\<close> is the assignment
  \<^verbatim>\<open>m[k] = v\<close> (replace, or insert at the key's place), \<open>map_erase\<close> is
  \<^verbatim>\<open>erase\<close>.
\<close>

fun map_put :: "'k::linorder \<Rightarrow> 'v \<Rightarrow> ('k \<times> 'v) list \<Rightarrow> ('k \<times> 'v) list" where
  "map_put k v [] = [(k, v)]"
| "map_put k v ((k', v') # xs) =
     (if k = k' then (k, v) # xs
      else if k < k' then (k, v) # (k', v') # xs
      else (k', v') # map_put k v xs)"


section \<open>Lightweight sync (blockchain/LightweightSync.cc)\<close>

record BlockHeader =
  height :: BlockHeight
  h_blockHash :: string
  previousHash :: string
  merkleRoot :: string
  h_shardID :: ShardID
  h_timestamp :: simtime
  proposer :: NodeID
  txCount :: int

text \<open>
  The fields \<^verbatim>\<open>syncHeader\<close> reads and writes: the header store
  \<^verbatim>\<open>headers_\<close> (a \<^verbatim>\<open>std::map\<close> from height to header) and \<^verbatim>\<open>latestHeight_\<close>.
\<close>

record LightweightSync =
  headers :: "(BlockHeight \<times> BlockHeader) list"
  latestHeight :: BlockHeight

definition getHeader :: "LightweightSync \<Rightarrow> BlockHeight \<Rightarrow> BlockHeader option" where
  "getHeader s h = map_of (headers s) h"

definition hasHeader :: "LightweightSync \<Rightarrow> BlockHeight \<Rightarrow> bool" where
  "hasHeader s h = (map_of (headers s) h \<noteq> None)"

definition validateHeaderChain :: "LightweightSync \<Rightarrow> BlockHeader \<Rightarrow> bool" where
  "validateHeaderChain s header =
     (if height header = 0 then True
      else case getHeader s (height header - 1) of
             None \<Rightarrow> (if headers s = [] then True else False)
           | Some prevHeader \<Rightarrow>
               (if previousHash header \<noteq> h_blockHash prevHeader then False
                else if height header \<noteq> height prevHeader + 1 then False
                else True))"

definition syncHeader :: "LightweightSync \<Rightarrow> BlockHeader \<Rightarrow> bool \<times> LightweightSync" where
  "syncHeader s header =
     (if \<not> validateHeaderChain s header then (False, s)
      else
        let s1 = s\<lparr> headers := map_put (height header) header (headers s) \<rparr>;
            s2 = (if latestHeight s1 < height header
                  then s1\<lparr> latestHeight := height header \<rparr> else s1)
        in (True, s2))"

text \<open>The constructor: no header, latest height 0.\<close>

definition newSync :: LightweightSync where
  "newSync = \<lparr> headers = [], latestHeight = 0 \<rparr>"

definition header5 :: BlockHeader where
  "header5 = \<lparr> height = 5, h_blockHash = ''b5'', previousHash = ''b4'', merkleRoot = ''m'',
       h_shardID = 0, h_timestamp = 0, proposer = ''n1'', txCount = 1 \<rparr>"

definition header6 :: BlockHeader where
  "header6 = \<lparr> height = 6, h_blockHash = ''b6'', previousHash = ''b5'', merkleRoot = ''m'',
       h_shardID = 0, h_timestamp = 0, proposer = ''n1'', txCount = 1 \<rparr>"

section \<open>Regional shard manager (shard/RegionalShardManager.cc)\<close>

record GeoCoord =
  latitude :: real
  longitude :: real

definition distanceTo :: "GeoCoord \<Rightarrow> GeoCoord \<Rightarrow> real" where
  "distanceTo a b =
     (let dx = latitude a - latitude b; dy = longitude a - longitude b
      in sqrt (dx * dx + dy * dy))"

datatype ShardLevel = REGIONAL | CITY | GLOBAL

text \<open>
  The member set \<^verbatim>\<open>std::set<NodeID>\<close> is a list without repetition:
  \<open>List.insert\<close> is \<^verbatim>\<open>insert\<close>, \<open>removeAll\<close> is \<^verbatim>\<open>erase\<close>, and both keep the
  list free of repetition, so its length is \<^verbatim>\<open>size()\<close>.
\<close>

record ShardInfo =
  si_shardID :: ShardID
  level :: ShardLevel
  centerPoint :: GeoCoord
  radius :: real
  members :: "NodeID list"
  leader :: NodeID
  creationTime :: simtime
  lastUpdate :: simtime

definition defaultShardInfo :: ShardInfo where
  "defaultShardInfo = \<lparr> si_shardID = -1, level = REGIONAL,
     centerPoint = \<lparr> latitude = 0, longitude = 0 \<rparr>, radius = 0, members = [],
     leader = [], creationTime = 0, lastUpdate = 0 \<rparr>"

definition contains :: "ShardInfo \<Rightarrow> GeoCoord \<Rightarrow> bool" where
  "contains sh location = (distanceTo (centerPoint sh) location \<le> radius sh)"

definition getMemberCount :: "ShardInfo \<Rightarrow> nat" where
  "getMemberCount sh = length (members sh)"

text \<open>
  The manager's fields. The shard sizes are \<^verbatim>\<open>int\<close>s that the code compares with
  \<^verbatim>\<open>size_t\<close> member counts, so each comparison first converts the \<^verbatim>\<open>int\<close> to
  64-bit unsigned (\<open>size_t_of_int\<close>). \<^verbatim>\<open>nextShardID_++\<close> is taken without overflow.
  The VRF selectors and the stored consensus groups are neither read nor written by
  the operations below and are left out.
\<close>

record RegionalShardManager =
  shards :: "(ShardID \<times> ShardInfo) list"
  nodeShardMap :: "NodeID \<rightharpoonup> ShardID"
  nodeLocationMap :: "NodeID \<rightharpoonup> GeoCoord"
  nodeReputationMap :: "NodeID \<rightharpoonup> ReputationScore"
  nextShardID :: ShardID
  shardRadius :: real
  minShardSize :: int
  maxShardSize :: int
  totalJoins :: int
  totalLeaves :: int
  totalSplits :: int
  totalMerges :: int

definition size_t_of_int :: "int \<Rightarrow> nat" where
  "size_t_of_int i = nat (i mod 2 ^ 64)"

text \<open>\<^verbatim>\<open>std::numeric_limits<double>::max()\<close>.\<close>

definition DBL_MAX :: real where
  "DBL_MAX = (2 - 1 / 2 ^ 52) * 2 ^ 1023"

text \<open>The constructor followed by \<^verbatim>\<open>initialize(shardRadius, minShardSize, maxShardSize)\<close>.\<close>

definition initializeShards :: "real \<Rightarrow> int \<Rightarrow> int \<Rightarrow> RegionalShardManager" where
  "initializeShards r mn mx = \<lparr> shards = [], nodeShardMap = Map.empty,
     nodeLocationMap = Map.empty, nodeReputationMap = Map.empty, nextShardID = 0,
     shardRadius = r, minShardSize = mn, maxShardSize = mx,
     totalJoins = 0, totalLeaves = 0, totalSplits = 0, totalMerges = 0 \<rparr>"

text \<open>\<^verbatim>\<open>shards_[shardID]\<close> read through \<^verbatim>\<open>operator[]\<close>: a missing shard is a default one.\<close>

definition shards_at :: "RegionalShardManager \<Rightarrow> ShardID \<Rightarrow> ShardInfo" where
  "shards_at s sid = (case map_of (shards s) sid of None \<Rightarrow> defaultShardInfo | Some sh \<Rightarrow> sh)"


definition canAcceptMember :: "RegionalShardManager \<Rightarrow> ShardID \<Rightarrow> bool" where
  "canAcceptMember s sid =
     (case map_of (shards s) sid of
        Some sh \<Rightarrow> getMemberCount sh < size_t_of_int (maxShardSize s)
      | None \<Rightarrow> False)"

definition shouldSplitShard :: "RegionalShardManager \<Rightarrow> ShardID \<Rightarrow> bool" where
  "shouldSplitShard s sid =
     (case map_of (shards s) sid of
        Some sh \<Rightarrow> size_t_of_int (maxShardSize s) < getMemberCount sh
      | None \<Rightarrow> False)"


text \<open>
  The loop of \<^verbatim>\<open>getShardForLocation\<close> over the shards in key order; the accumulator is
  \<open>(bestShard, minDistance)\<close>.
\<close>

fun getShardForLocation_loop ::
  "RegionalShardManager \<Rightarrow> GeoCoord \<Rightarrow> (ShardID \<times> ShardInfo) list \<Rightarrow> ShardID \<times> real \<Rightarrow>
   ShardID \<times> real"
where
  "getShardForLocation_loop s location [] acc = acc"
| "getShardForLocation_loop s location ((sid, sh) # rest) (bestShard, minDistance) =
     getShardForLocation_loop s location rest
       (if contains sh location then
          (if canAcceptMember s sid then
             (let distance = distanceTo (centerPoint sh) location
              in if distance < minDistance then (sid, distance) else (bestShard, minDistance))
           else (bestShard, minDistance))
        else (bestShard, minDistance))"

definition getShardForLocation :: "RegionalShardManager \<Rightarrow> GeoCoord \<Rightarrow> ShardID" where
  "getShardForLocation s location =
     fst (getShardForLocation_loop s location (shards s) (-1, DBL_MAX))"



definition createShard ::
  "simtime \<Rightarrow> RegionalShardManager \<Rightarrow> GeoCoord \<Rightarrow> ShardID \<times> RegionalShardManager"
where
  "createShard now s center =
     (let sid = nextShardID s;
          shard = defaultShardInfo\<lparr> si_shardID := sid, level := REGIONAL, centerPoint := center,
                                    radius := shardRadius s, lastUpdate := now \<rparr>
      in (sid, s\<lparr> nextShardID := sid + 1, shards := map_put sid shard (shards s) \<rparr>))"

text \<open>
  The body of \<^verbatim>\<open>electLeaderByReputation\<close> is withheld in the repository (a placeholder
  that returns the empty string): \<open>electLeaderByReputation\<close> below is this placeholder.
  The operations that elect a leader take the election as an argument \<open>elr\<close>, read as a
  query without effect on the manager, so what is proved of them holds for every
  implementation of it.
\<close>

definition electLeaderByReputation :: "RegionalShardManager \<Rightarrow> ShardID \<Rightarrow> NodeID" where
  "electLeaderByReputation s sid = []"

definition electLeader ::
  "(RegionalShardManager \<Rightarrow> ShardID \<Rightarrow> NodeID) \<Rightarrow> simtime \<Rightarrow> RegionalShardManager \<Rightarrow> ShardID \<Rightarrow>
   RegionalShardManager"
where
  "electLeader elr now s sid =
     (case map_of (shards s) sid of
        None \<Rightarrow> s
      | Some sh \<Rightarrow>
          s\<lparr> shards := map_put sid (sh\<lparr> leader := elr s sid, lastUpdate := now \<rparr>) (shards s) \<rparr>)"

definition calculateSplitPoint :: "RegionalShardManager \<Rightarrow> ShardInfo \<Rightarrow> GeoCoord" where
  "calculateSplitPoint s sh =
     (if members sh = [] then centerPoint sh
      else
        let located = List.map_filter (nodeLocationMap s) (members sh);
            avgLat = sum_list (map latitude located);
            avgLon = sum_list (map longitude located);
            count = length located
        in if 0 < count
           then \<lparr> latitude = avgLat / real count, longitude = avgLon / real count \<rparr>
           else centerPoint sh)"

text \<open>
  One round of the loop that moves a member from the original shard to the new one.
  Both shards are read from the map at each round, as the two references of the code are.
\<close>

definition moveMember ::
  "ShardID \<Rightarrow> ShardID \<Rightarrow> NodeID \<Rightarrow> RegionalShardManager \<Rightarrow> RegionalShardManager"
where
  "moveMember sid newShardID n s =
     (let orig = shards_at s sid;
          s1 = s\<lparr> shards := map_put sid (orig\<lparr> members := removeAll n (members orig) \<rparr>) (shards s) \<rparr>;
          new = shards_at s1 newShardID
      in s1\<lparr> shards := map_put newShardID (new\<lparr> members := List.insert n (members new) \<rparr>) (shards s1),
             nodeShardMap := (nodeShardMap s1)(n \<mapsto> newShardID) \<rparr>)"

definition splitShard ::
  "(RegionalShardManager \<Rightarrow> ShardID \<Rightarrow> NodeID) \<Rightarrow> simtime \<Rightarrow> RegionalShardManager \<Rightarrow> ShardID \<Rightarrow>
   RegionalShardManager"
where
  "splitShard elr now s sid =
     (case map_of (shards s) sid of
        None \<Rightarrow> s
      | Some originalShard \<Rightarrow>
          if getMemberCount originalShard \<le> size_t_of_int (minShardSize s) then s
          else
            let splitPoint = calculateSplitPoint s originalShard;
                (newShardID, s1) = createShard now s splitPoint;
                original1 = shards_at s1 sid;
                membersToMove =
                  filter (\<lambda>n. case nodeLocationMap s1 n of
                                 None \<Rightarrow> False
                               | Some loc \<Rightarrow> distanceTo splitPoint loc
                                             < distanceTo (centerPoint original1) loc)
                         (members original1);
                s2 = fold (moveMember sid newShardID) membersToMove s1;
                s3 = electLeader elr now s2 sid;
                s4 = electLeader elr now s3 newShardID
            in s4\<lparr> totalSplits := totalSplits s4 + 1 \<rparr>)"

definition addNode ::
  "(RegionalShardManager \<Rightarrow> ShardID \<Rightarrow> NodeID) \<Rightarrow> simtime \<Rightarrow> RegionalShardManager \<Rightarrow>
   NodeID \<Rightarrow> GeoCoord \<Rightarrow> ReputationScore \<Rightarrow> ShardID \<times> RegionalShardManager"
where
  "addNode elr now s n location reputation =
     (case nodeShardMap s n of
        Some sid \<Rightarrow> (sid, s)
      | None \<Rightarrow>
          let s1 = s\<lparr> nodeLocationMap := (nodeLocationMap s)(n \<mapsto> location),
                      nodeReputationMap := (nodeReputationMap s)(n \<mapsto> reputation) \<rparr>;
              found = getShardForLocation s1 location;
              (shardID, s2) = (if found = -1 then createShard now s1 location else (found, s1));
              shard = shards_at s2 shardID;
              shard1 = shard\<lparr> members := List.insert n (members shard), lastUpdate := now \<rparr>;
              s3 = s2\<lparr> shards := map_put shardID shard1 (shards s2),
                        nodeShardMap := (nodeShardMap s2)(n \<mapsto> shardID) \<rparr>;
              s4 = (if leader shard1 = [] then electLeader elr now s3 shardID else s3);
              s5 = (if shouldSplitShard s4 shardID then splitShard elr now s4 shardID else s4)
          in (shardID, s5\<lparr> totalJoins := totalJoins s5 + 1 \<rparr>))"




text \<open>
  Concrete inputs: a manager with radius 3000, minimum size 1 and maximum size 2, and
  two nodes that join at the origin.
\<close>

definition origin :: GeoCoord where
  "origin = \<lparr> latitude = 0, longitude = 0 \<rparr>"

definition twoNodes :: RegionalShardManager where
  "twoNodes =
     snd (addNode electLeaderByReputation 0
            (snd (addNode electLeaderByReputation 0 (initializeShards 3000 1 2) ''a'' origin (1/2)))
            ''b'' origin (1/2))"

section \<open>Reputation manager (reputation/VRMManager.cc)\<close>

datatype ReputationEvent =
    SUCCESSFUL_TX | FAILED_TX | SUCCESSFUL_VOTE | FAILED_VOTE | TIMEOUT | MALICIOUS_BEHAVIOR
  | PROPOSE_VALID_BLOCK | PROPOSE_INVALID_BLOCK | VOTE_CORRECTLY | VOTE_INCORRECTLY
  | SUCCESSFUL_CONSENSUS | FAILED_CONSENSUS

record EventWeight =
  baseWeight :: real
  useMarginalDecay :: bool

definition getEffectiveWeight :: "EventWeight \<Rightarrow> real \<Rightarrow> real" where
  "getEffectiveWeight w currentReputation =
     (if useMarginalDecay w then baseWeight w / (1 + currentReputation) else baseWeight w)"

record ReputationRecord =
  rr_nodeID :: NodeID
  globalReputation :: ReputationScore
  localPerformance :: ReputationScore
  localInteractionCount :: int
  score :: ReputationScore
  successfulTx :: int
  failedTx :: int
  validProposals :: int
  totalProposals :: int
  correctVotes :: int
  totalVotes :: int
  rr_lastUpdate :: simtime
  recentEvents :: "ReputationEvent list"

text \<open>The constructor \<^verbatim>\<open>ReputationRecord(id)\<close>.\<close>

definition newRecord :: "NodeID \<Rightarrow> ReputationRecord" where
  "newRecord n = \<lparr> rr_nodeID = n, globalReputation = 1/2, localPerformance = 1/2,
     localInteractionCount = 0, score = 1/2, successfulTx = 0, failedTx = 0,
     validProposals = 0, totalProposals = 0, correctVotes = 0, totalVotes = 0,
     rr_lastUpdate = 0, recentEvents = [] \<rparr>"

definition getFinalReputation :: "ReputationRecord \<Rightarrow> real" where
  "getFinalReputation r =
     (let w = exp (- (1/10) * real_of_int (localInteractionCount r))
      in w * globalReputation r + (1 - w) * localPerformance r)"

definition clampReputation :: "ReputationScore \<Rightarrow> ReputationScore" where
  "clampReputation x = (if x < 0 then 0 else if 1 < x then 1 else x)"

text \<open>The manager's state is the record map \<^verbatim>\<open>records_\<close>.\<close>

type_synonym VRMManager = "NodeID \<rightharpoonup> ReputationRecord"

definition registerNode :: "simtime \<Rightarrow> VRMManager \<Rightarrow> NodeID \<Rightarrow> ReputationScore \<Rightarrow> VRMManager" where
  "registerNode now m n initialScore =
     (if m n \<noteq> None then m
      else m(n \<mapsto> (newRecord n)\<lparr> score := clampReputation initialScore, rr_lastUpdate := now \<rparr>))"

definition isRegistered :: "VRMManager \<Rightarrow> NodeID \<Rightarrow> bool" where
  "isRegistered m n = (m n \<noteq> None)"

definition getReputation :: "VRMManager \<Rightarrow> NodeID \<Rightarrow> ReputationScore" where
  "getReputation m n = (case m n of Some r \<Rightarrow> score r | None \<Rightarrow> 1/2)"

text \<open>
  The \<^verbatim>\<open>switch\<close> of \<^verbatim>\<open>recordEvent\<close>: from the event, the effective weight \<open>alpha\<close>
  and the record, the signed delta and the record with its counters advanced.
\<close>

fun eventSwitch :: "ReputationEvent \<Rightarrow> real \<Rightarrow> ReputationRecord \<Rightarrow> real \<times> ReputationRecord" where
  "eventSwitch PROPOSE_VALID_BLOCK alpha r =
     (alpha, r\<lparr> validProposals := validProposals r + 1, totalProposals := totalProposals r + 1 \<rparr>)"
| "eventSwitch VOTE_CORRECTLY alpha r =
     (alpha, r\<lparr> correctVotes := correctVotes r + 1, totalVotes := totalVotes r + 1 \<rparr>)"
| "eventSwitch SUCCESSFUL_CONSENSUS alpha r = (alpha, r)"
| "eventSwitch SUCCESSFUL_TX alpha r = (alpha, r\<lparr> successfulTx := successfulTx r + 1 \<rparr>)"
| "eventSwitch SUCCESSFUL_VOTE alpha r = (alpha, r)"
| "eventSwitch PROPOSE_INVALID_BLOCK alpha r =
     (- alpha, r\<lparr> totalProposals := totalProposals r + 1 \<rparr>)"
| "eventSwitch VOTE_INCORRECTLY alpha r = (- alpha, r\<lparr> totalVotes := totalVotes r + 1 \<rparr>)"
| "eventSwitch TIMEOUT alpha r = (- alpha, r)"
| "eventSwitch MALICIOUS_BEHAVIOR alpha r = (- alpha, r)"
| "eventSwitch FAILED_CONSENSUS alpha r = (- alpha, r)"
| "eventSwitch FAILED_TX alpha r = (- alpha, r\<lparr> failedTx := failedTx r + 1 \<rparr>)"
| "eventSwitch FAILED_VOTE alpha r = (- alpha, r)"

text \<open>
  The bodies of \<^verbatim>\<open>getEventWeight\<close> (the weight table) and \<^verbatim>\<open>updateScore\<close> are
  withheld in the repository (placeholders that return the weight \<open>(0, false)\<close> and do
  nothing): \<open>getEventWeight\<close> and \<open>updateScore\<close> below are these placeholders.
  \<open>recordEvent\<close> takes both as arguments \<open>gew\<close> and \<open>upd\<close>.
\<close>

definition getEventWeight :: "ReputationEvent \<Rightarrow> EventWeight" where
  "getEventWeight e = \<lparr> baseWeight = 0, useMarginalDecay = False \<rparr>"

definition updateScore :: "VRMManager \<Rightarrow> NodeID \<Rightarrow> real \<Rightarrow> VRMManager" where
  "updateScore m n delta = m"

definition recordEvent ::
  "(ReputationEvent \<Rightarrow> EventWeight) \<Rightarrow> (VRMManager \<Rightarrow> NodeID \<Rightarrow> real \<Rightarrow> VRMManager) \<Rightarrow>
   simtime \<Rightarrow> VRMManager \<Rightarrow> NodeID \<Rightarrow> ReputationEvent \<Rightarrow> VRMManager"
where
  "recordEvent gew upd now m n e =
     (case m n of
        None \<Rightarrow> m
      | Some rec \<Rightarrow>
          let record = rec\<lparr> recentEvents := recentEvents rec @ [e], rr_lastUpdate := now \<rparr>;
              weight = gew e;
              currentRep = getFinalReputation record;
              alpha = getEffectiveWeight weight currentRep;
              (delta, record1) = eventSwitch e alpha record
          in upd (m(n \<mapsto> record1)) n delta)"

text \<open>
  The delta that \<^verbatim>\<open>recordEvent\<close> computes for a node and hands to
  \<^verbatim>\<open>updateScore\<close> (0 for a node without a record, for which nothing is computed).
\<close>

definition eventDelta ::
  "(ReputationEvent \<Rightarrow> EventWeight) \<Rightarrow> VRMManager \<Rightarrow> NodeID \<Rightarrow> ReputationEvent \<Rightarrow> real"
where
  "eventDelta gew m n e =
     (case m n of
        None \<Rightarrow> 0
      | Some rec \<Rightarrow> fst (eventSwitch e (getEffectiveWeight (gew e) (getFinalReputation rec)) rec))"

text \<open>The events the \<^verbatim>\<open>switch\<close> lists as positive.\<close>

fun positiveEvent :: "ReputationEvent \<Rightarrow> bool" where
  "positiveEvent PROPOSE_VALID_BLOCK = True"
| "positiveEvent VOTE_CORRECTLY = True"
| "positiveEvent SUCCESSFUL_CONSENSUS = True"
| "positiveEvent SUCCESSFUL_TX = True"
| "positiveEvent SUCCESSFUL_VOTE = True"
| "positiveEvent e = False"

text \<open>Concrete input: a manager with the single node \<open>v\<close>, registered with the default score.\<close>

definition oneRecord :: VRMManager where
  "oneRecord = registerNode 0 Map.empty ''v'' (1/2)"

section \<open>VRF committee selector (consensus/VRFSelector.cc)\<close>

datatype NodeRole = ORDINARY | CONSENSUS_PRIMARY | CONSENSUS_REDUNDANT | RSU_PERMANENT

record ConsensusGroup =
  primaryNodes :: "NodeID list"
  redundantNodes :: "NodeID list"
  rsuCount :: int
  vehicleCount :: int
  epoch :: int


record VRFSelector =
  sel_shardID :: ShardID
  currentGroup :: ConsensusGroup
  nodeRoles :: "NodeID \<rightharpoonup> NodeRole"
  lastEpoch :: int

definition newSelector :: "ShardID \<Rightarrow> VRFSelector" where
  "newSelector sh = \<lparr> sel_shardID = sh,
     currentGroup = \<lparr> primaryNodes = [], redundantNodes = [], rsuCount = 0, vehicleCount = 0,
                      epoch = 0 \<rparr>,
     nodeRoles = Map.empty, lastEpoch = -1 \<rparr>"

text \<open>
  \<^verbatim>\<open>electConsensusGroup\<close> as the repository has it: the body is withheld, and what
  is there returns a default-constructed group (empty lists, counts 0, epoch 0) for
  every argument and leaves the selector as it is.
\<close>

definition electConsensusGroup ::
  "VRFSelector \<Rightarrow> NodeID list \<Rightarrow> NodeID list \<Rightarrow> int \<Rightarrow> int \<Rightarrow> 64 word \<Rightarrow>
   ConsensusGroup \<times> VRFSelector"
where
  "electConsensusGroup sel candidates rsuNodes groupSize redundantCount seed =
     (\<lparr> primaryNodes = [], redundantNodes = [], rsuCount = 0, vehicleCount = 0, epoch = 0 \<rparr>,
      sel)"





section \<open>Quorum size\<close>

text \<open>
  C1 (as amended). For every shard size handed to \<^verbatim>\<open>setShardSize\<close>, the engine's
  quorum size is the constant 2: it is never below 2, and it does not grow with the
  committee.
\<close>

theorem getQuorumSize_constant: "getQuorumSize (setShardSize N s) = 2"
  by (simp add: getQuorumSize_def)

text \<open>
  C1 as stated fails: for a committee of 3 the formula asks for 3 votes, the engine for 2.
\<close>

theorem getQuorumSize_not_formula:
  "getQuorumSize (setShardSize 3 (initialize ''n0'' 0)) \<noteq> spec_quorum 3"
  by (simp add: getQuorumSize_def spec_quorum_def)

section \<open>Proposal validation\<close>

lemma validateProposal_iff:
  "validateProposal s p \<longleftrightarrow>
     proposalID p \<noteq> [] \<and> blockHash p \<noteq> [] \<and> blockHeight p = currentHeight s + 1 \<and>
     currentView s \<le> viewNumber p \<and> transactions p \<noteq> [] \<and>
     list_all (\<lambda>tx. txID tx \<noteq> [] \<and> sender tx \<noteq> []) (transactions p)"
  by (auto simp: validateProposal_def not_less)

text \<open>
  C2 (evaluation at the failing input). A replica of shard 0 at height 0 receives a
  proposal that is well formed in every respect but carries shard id 7. The shard check
  of \<^verbatim>\<open>validateProposal\<close> is commented out, so the proposal passes validation, is
  adopted as the current proposal, and the replica votes approve in the Prepare phase.
\<close>

theorem handleProposal_adopts_foreign_shard:
  "shardID (prop1\<lparr> shardID := 7 \<rparr>) \<noteq> self_shardID replica0 \<and>
   validateProposal replica0 (prop1\<lparr> shardID := 7 \<rparr>) \<and>
   hasActiveProposal (handleProposal 0 replica0 (prop1\<lparr> shardID := 7 \<rparr>)) \<and>
   currentProposal (handleProposal 0 replica0 (prop1\<lparr> shardID := 7 \<rparr>)) = prop1\<lparr> shardID := 7 \<rparr> \<and>
   currentPhase (handleProposal 0 replica0 (prop1\<lparr> shardID := 7 \<rparr>)) = PREPARE \<and>
   map approve (votesOut (handleProposal 0 replica0 (prop1\<lparr> shardID := 7 \<rparr>))) = [True]"
  by (simp add: handleProposal_def validateProposal_def sendVote_def replica0_def
      setVoteCallback_def initialize_def prop1_def tx1_def)

section \<open>Vote collection\<close>

lemma storedVotes_pushVote:
  "storedVotes (s\<lparr> voteStore := pushVote (voteStore s) v \<rparr>) (v_proposalID v) (v_phase v) =
     storedVotes s (v_proposalID v) (v_phase v) @ [v]"
  by (simp add: storedVotes_def pushVote_def Let_def split: option.splits)

lemma handleVote_other_proposal:
  "\<not> hasActiveProposal s \<or> v_proposalID v \<noteq> proposalID (currentProposal s) \<Longrightarrow>
     handleVote hq adv s v = s"
  by (auto simp: handleVote_def)

text \<open>
  C6 (as amended). The engine keeps every vote it receives for the active proposal: a
  vote whose phase is not the current phase, or whose phase has not reached quorum, is
  appended to the votes stored for its proposal and phase, whether or not the same voter
  already has a vote there, so the voter's count of stored votes grows by one each time.
\<close>

theorem handleVote_appends:
  assumes "hasActiveProposal s"
    and "v_proposalID v = proposalID (currentProposal s)"
    and "v_phase v \<noteq> currentPhase s \<or>
         \<not> hq (s\<lparr> voteStore := pushVote (voteStore s) v \<rparr>) (v_proposalID v) (currentPhase s)"
  shows "storedVotes (handleVote hq adv s v) (v_proposalID v) (v_phase v) =
           storedVotes s (v_proposalID v) (v_phase v) @ [v] \<and>
         votesOf (voterID v) (storedVotes (handleVote hq adv s v) (v_proposalID v) (v_phase v)) =
           Suc (votesOf (voterID v) (storedVotes s (v_proposalID v) (v_phase v)))"
proof -
  let ?s1 = "s\<lparr> voteStore := pushVote (voteStore s) v \<rparr>"
  from assms have "handleVote hq adv s v = ?s1"
    by (auto simp: handleVote_def Let_def)
  then show ?thesis
    by (simp add: storedVotes_pushVote votesOf_def)
qed

text \<open>
  C6 as stated fails: a replica that has accepted proposal \<open>p1\<close> and receives the same
  Prepare vote of voter \<open>A\<close> twice stores it twice.
\<close>

theorem handleVote_stores_duplicate:
  "storedVotes
     (handleVote hasQuorum advancePhase
        (handleVote hasQuorum advancePhase (handleProposal 0 replica0 prop1) voteA) voteA)
     ''p1'' PREPARE = [voteA, voteA]"
  by (simp add: handleVote_def handleProposal_def validateProposal_def sendVote_def
      replica0_def setVoteCallback_def initialize_def prop1_def tx1_def voteA_def
      storedVotes_def pushVote_def Let_def hasQuorum_def advancePhase_def)

theorem handleVote_appends_witness:
  "storedVotes
     (handleVote hasQuorum advancePhase (handleProposal 0 replica0 prop1) voteA)
     ''p1'' PREPARE = [voteA]"
proof -
  let ?s = "handleProposal 0 replica0 prop1"
  have a: "hasActiveProposal ?s"
    by (simp add: handleProposal_def validateProposal_def sendVote_def replica0_def
        setVoteCallback_def initialize_def prop1_def tx1_def)
  have b: "v_proposalID voteA = proposalID (currentProposal ?s)"
    by (simp add: handleProposal_def validateProposal_def sendVote_def replica0_def
        setVoteCallback_def initialize_def prop1_def tx1_def voteA_def)
  have c: "storedVotes ?s ''p1'' PREPARE = []"
    by (simp add: handleProposal_def validateProposal_def sendVote_def replica0_def
        setVoteCallback_def initialize_def prop1_def tx1_def storedVotes_def)
  have d: "v_proposalID voteA = ''p1''" "v_phase voteA = PREPARE"
    by (simp_all add: voteA_def)
  from handleVote_appends [of ?s voteA hasQuorum advancePhase, OF a b]
  show ?thesis by (simp add: c d hasQuorum_def)
qed
section \<open>Ordered maps: lookup after update\<close>

lemma map_of_map_put: "map_of (map_put k v xs) = (map_of xs)(k \<mapsto> v)"
  by (induction xs) (auto simp: fun_eq_iff)


section \<open>Header chain\<close>

text \<open>
  C8 (as amended). \<^verbatim>\<open>syncHeader\<close> accepts a header of height \<open>h > 0\<close> if and only if
  either a header is stored at height \<open>h - 1\<close>, the new header's previous hash is that
  header's block hash and \<open>h\<close> is that header's height plus 1, or no header is stored at
  height \<open>h - 1\<close> and the header store is empty (the first header a node sees is taken
  at any height). A genesis header (height 0) is always accepted. On acceptance the
  header is stored at its height, every other height keeps its header, and the latest
  height becomes the larger of the old one and \<open>h\<close>; on rejection the state is unchanged
  and the result is false.
\<close>

theorem syncHeader_accepts_iff:
  "(fst (syncHeader s hdr) \<longleftrightarrow>
      height hdr = 0 \<or>
      (case getHeader s (height hdr - 1) of
         None \<Rightarrow> headers s = []
       | Some prev \<Rightarrow> previousHash hdr = h_blockHash prev \<and> height hdr = height prev + 1)) \<and>
   (fst (syncHeader s hdr) \<longrightarrow>
      getHeader (snd (syncHeader s hdr)) (height hdr) = Some hdr \<and>
      (\<forall>h. h \<noteq> height hdr \<longrightarrow> getHeader (snd (syncHeader s hdr)) h = getHeader s h) \<and>
      latestHeight (snd (syncHeader s hdr)) = max (latestHeight s) (height hdr)) \<and>
   (\<not> fst (syncHeader s hdr) \<longrightarrow> snd (syncHeader s hdr) = s)"
proof -
  have accept: "validateHeaderChain s hdr \<longleftrightarrow>
      height hdr = 0 \<or>
      (case getHeader s (height hdr - 1) of
         None \<Rightarrow> headers s = []
       | Some prev \<Rightarrow> previousHash hdr = h_blockHash prev \<and> height hdr = height prev + 1)"
    by (auto simp: validateHeaderChain_def split: option.splits)
  have res: "fst (syncHeader s hdr) = validateHeaderChain s hdr"
    by (simp add: syncHeader_def Let_def)
  have stored: "validateHeaderChain s hdr \<Longrightarrow>
      getHeader (snd (syncHeader s hdr)) h = (if h = height hdr then Some hdr else getHeader s h)" for h
    by (simp add: syncHeader_def Let_def getHeader_def map_of_map_put)
  have latest: "validateHeaderChain s hdr \<Longrightarrow>
      latestHeight (snd (syncHeader s hdr)) = max (latestHeight s) (height hdr)"
    by (auto simp: syncHeader_def Let_def max_def)
  have rejected: "\<not> validateHeaderChain s hdr \<Longrightarrow> snd (syncHeader s hdr) = s"
    by (simp add: syncHeader_def)
  show ?thesis
    using accept res stored latest rejected by simp
qed

theorem syncHeader_accepts_iff_witness:
  "fst (syncHeader (snd (syncHeader newSync header5)) header6) \<and>
   getHeader (snd (syncHeader (snd (syncHeader newSync header5)) header6)) 6 = Some header6 \<and>
   getHeader (snd (syncHeader (snd (syncHeader newSync header5)) header6)) 5 = Some header5 \<and>
   latestHeight (snd (syncHeader (snd (syncHeader newSync header5)) header6)) = 6 \<and>
   \<not> fst (syncHeader (snd (syncHeader newSync header5)) (header6\<lparr> previousHash := ''zz'' \<rparr>)) \<and>
   snd (syncHeader (snd (syncHeader newSync header5)) (header6\<lparr> previousHash := ''zz'' \<rparr>)) =
     snd (syncHeader newSync header5)"
proof -
  let ?s5 = "snd (syncHeader newSync header5)"
  have s5: "?s5 = \<lparr> headers = [(5, header5)], latestHeight = 5 \<rparr>"
    by (simp add: syncHeader_def validateHeaderChain_def getHeader_def newSync_def
        header5_def Let_def)
  have h6: "height header6 = 6" "previousHash header6 = ''b5''"
    and h5: "height header5 = 5" "h_blockHash header5 = ''b5''"
    by (simp_all add: header6_def header5_def)
  have prev: "getHeader ?s5 (6 - 1) = Some header5"
    by (simp add: s5 getHeader_def)
  have five: "getHeader ?s5 5 = Some header5"
    by (simp add: s5 getHeader_def)
  have lat: "latestHeight ?s5 = 5"
    by (simp add: s5)
  from syncHeader_accepts_iff [of ?s5 header6]
  have good: "fst (syncHeader ?s5 header6) \<and>
      getHeader (snd (syncHeader ?s5 header6)) 6 = Some header6 \<and>
      getHeader (snd (syncHeader ?s5 header6)) 5 = Some header5 \<and>
      latestHeight (snd (syncHeader ?s5 header6)) = 6"
    by (simp add: h6 h5 prev five lat)
  from syncHeader_accepts_iff [of ?s5 "header6\<lparr> previousHash := ''zz'' \<rparr>"]
  have bad: "\<not> fst (syncHeader ?s5 (header6\<lparr> previousHash := ''zz'' \<rparr>)) \<and>
      snd (syncHeader ?s5 (header6\<lparr> previousHash := ''zz'' \<rparr>)) = ?s5"
    by (simp add: h6 h5 prev five)
  from good bad show ?thesis by simp
qed

text \<open>
  C8 as stated fails: a node with an empty header store accepts a header of height 5,
  although no header of height 4 is known.
\<close>

theorem syncHeader_first_header_any_height:
  "height header5 \<noteq> 0 \<and> getHeader newSync (height header5 - 1) = None \<and>
   fst (syncHeader newSync header5)"
  by (simp add: syncHeader_def validateHeaderChain_def getHeader_def newSync_def
      header5_def Let_def)

section \<open>Shard manager: joining and leaving\<close>


lemma DBL_MAX_pos: "0 < DBL_MAX"
  by (simp add: DBL_MAX_def)

lemma distanceTo_self: "distanceTo a a = 0"
  by (simp add: distanceTo_def)

lemma size_t_of_int_small: "size_t_of_int 2 = 2" "size_t_of_int 1 = 1"
  by (simp_all add: size_t_of_int_def)






lemma electLeader_members:
  "map_option members (map_of (shards (electLeader elr now s sid)) k) =
     map_option members (map_of (shards s) k)"
  by (simp add: electLeader_def map_of_map_put split: option.splits)


lemma twoNodes_eval:
  "twoNodes = \<lparr>shards =
        [(0, \<lparr>si_shardID = 0, level = REGIONAL,
                centerPoint = \<lparr>latitude = 0, longitude = 0\<rparr>, radius = 3000,
                members = [''b'', ''a''], leader = [], creationTime = 0,
                lastUpdate = 0\<rparr>)],
        nodeShardMap = [''a'' \<mapsto> 0, ''b'' \<mapsto> 0],
        nodeLocationMap =
          [''a'' \<mapsto> \<lparr>latitude = 0, longitude = 0\<rparr>,
           ''b'' \<mapsto> \<lparr>latitude = 0, longitude = 0\<rparr>],
        nodeReputationMap = [''a'' \<mapsto> 1 / 2, ''b'' \<mapsto> 1 / 2], nextShardID = 1,
        shardRadius = 3000, minShardSize = 1, maxShardSize = 2,
        totalJoins = 2, totalLeaves = 0, totalSplits = 0, totalMerges = 0\<rparr>"
  by (simp add: twoNodes_def addNode_def initializeShards_def getShardForLocation_def
      createShard_def Let_def shards_at_def electLeader_def electLeaderByReputation_def
      shouldSplitShard_def getMemberCount_def size_t_of_int_small defaultShardInfo_def
      contains_def canAcceptMember_def distanceTo_self DBL_MAX_pos origin_def)





section \<open>Shard manager: adding a node twice\<close>

text \<open>
  C10. For every node that is already assigned to a shard, \<^verbatim>\<open>addNode\<close> with any
  location and any reputation returns the node's shard id and leaves the whole state of
  the manager as it was: the stored location and reputation keep their old values, and
  no shard is created, no leader elected and no shard split.
\<close>

theorem addNode_existing:
  "nodeShardMap s n = Some sid \<Longrightarrow> addNode elr now s n location reputation = (sid, s)"
  by (simp add: addNode_def)

theorem addNode_existing_witness:
  "addNode electLeaderByReputation 7 twoNodes ''a'' \<lparr> latitude = 9000, longitude = 9000 \<rparr> (9/10)
     = (0, twoNodes) \<and>
   nodeLocationMap (snd (addNode electLeaderByReputation 7 twoNodes ''a''
       \<lparr> latitude = 9000, longitude = 9000 \<rparr> (9/10))) ''a'' = Some origin"
proof -
  have placed: "nodeShardMap twoNodes ''a'' = Some 0"
    by (simp add: twoNodes_eval)
  have loc: "nodeLocationMap twoNodes ''a'' = Some origin"
    by (simp add: twoNodes_eval origin_def)
  from addNode_existing [OF placed] loc show ?thesis by simp
qed

section \<open>Reputation: events for unknown nodes\<close>

lemma oneRecord_eval:
  "oneRecord ''v'' = Some (newRecord ''v'')"
  by (simp add: oneRecord_def registerNode_def newRecord_def clampReputation_def)

lemma oneRecord_other: "n \<noteq> ''v'' \<Longrightarrow> oneRecord n = None"
  by (simp add: oneRecord_def registerNode_def)

text \<open>
  C7 (as amended). Recording a reputation event for a node that is not registered
  changes nothing: \<^verbatim>\<open>recordEvent\<close> returns at once, the record map is as it was, and
  the node is still not registered afterwards. This holds whatever the weight table and
  the score update are.
\<close>

theorem recordEvent_unregistered:
  "m n = None \<Longrightarrow> recordEvent gew upd now m n e = m \<and> \<not> isRegistered (recordEvent gew upd now m n e) n"
  by (simp add: recordEvent_def isRegistered_def)

theorem recordEvent_unregistered_witness:
  "recordEvent getEventWeight updateScore 3 oneRecord ''z'' TIMEOUT = oneRecord \<and>
   \<not> isRegistered (recordEvent getEventWeight updateScore 3 oneRecord ''z'' TIMEOUT) ''z''"
proof -
  have "oneRecord ''z'' = None"
    by (simp add: oneRecord_other)
  from recordEvent_unregistered [where m = oneRecord and n = "''z''" and gew = getEventWeight
      and upd = updateScore and now = 3 and e = TIMEOUT, OF this]
  show ?thesis .
qed

text \<open>
  C7 as stated fails: after an event is recorded for the unknown node \<open>x\<close> in an empty
  manager, \<open>x\<close> is not registered.
\<close>

theorem recordEvent_no_auto_register:
  "\<not> isRegistered (recordEvent getEventWeight updateScore 0 Map.empty ''x'' PROPOSE_VALID_BLOCK) ''x''"
  by (simp add: recordEvent_def isRegistered_def)

section \<open>Reputation: the delta of an event\<close>

lemma eventSwitch_fst:
  "fst (eventSwitch e alpha r) = (if positiveEvent e then alpha else - alpha)"
  by (cases e) simp_all

lemma eventDelta_Some:
  "m n = Some r \<Longrightarrow> eventDelta gew m n e =
     (if positiveEvent e then getEffectiveWeight (gew e) (getFinalReputation r)
      else - getEffectiveWeight (gew e) (getFinalReputation r))"
  by (simp add: eventDelta_def eventSwitch_fst)

lemma getFinalReputation_touch [simp]:
  "getFinalReputation (r\<lparr> recentEvents := es, rr_lastUpdate := t \<rparr>) = getFinalReputation r"
  by (simp add: getFinalReputation_def)

lemma recordEvent_hands_delta:
  "m n = Some r \<Longrightarrow> \<exists>r'. recordEvent gew upd now m n e = upd (m(n \<mapsto> r')) n (eventDelta gew m n e)"
  by (auto simp: recordEvent_def eventDelta_def Let_def case_prod_beta eventSwitch_fst)

lemma newRecord_fields:
  "globalReputation (newRecord n) = 1/2" "localPerformance (newRecord n) = 1/2"
  "localInteractionCount (newRecord n) = 0" "getFinalReputation (newRecord n) = 1/2"
  by (simp_all add: newRecord_def getFinalReputation_def)

text \<open>
  C3 (evaluation at the failing input). A node registered with the default score
  (final reputation 0.5) proposes two valid blocks in succession. The weight table
  \<^verbatim>\<open>getEventWeight\<close> of the repository gives every event the weight 0 without
  marginal decay and \<^verbatim>\<open>updateScore\<close> does nothing, so the delta that
  \<^verbatim>\<open>recordEvent\<close> computes is 0 at the first event and 0 again at the second; the
  second delta is not smaller than the first, and the node's final reputation and its
  score stay at 0.5.
\<close>

theorem recordEvent_positive_event_twice:
  "eventDelta getEventWeight oneRecord ''v'' PROPOSE_VALID_BLOCK = 0 \<and>
   eventDelta getEventWeight
     (recordEvent getEventWeight updateScore 1 oneRecord ''v'' PROPOSE_VALID_BLOCK)
     ''v'' PROPOSE_VALID_BLOCK = 0 \<and>
   \<not> eventDelta getEventWeight
       (recordEvent getEventWeight updateScore 1 oneRecord ''v'' PROPOSE_VALID_BLOCK)
       ''v'' PROPOSE_VALID_BLOCK
     < eventDelta getEventWeight oneRecord ''v'' PROPOSE_VALID_BLOCK \<and>
   map_option getFinalReputation
     (recordEvent getEventWeight updateScore 1 oneRecord ''v'' PROPOSE_VALID_BLOCK ''v'')
     = Some (1/2) \<and>
   getReputation
     (recordEvent getEventWeight updateScore 1 oneRecord ''v'' PROPOSE_VALID_BLOCK) ''v''
     = 1/2"
proof -
  let ?m = "recordEvent getEventWeight updateScore 1 oneRecord ''v'' PROPOSE_VALID_BLOCK"
  have after: "?m ''v'' =
      Some ((newRecord ''v'')\<lparr> recentEvents := [PROPOSE_VALID_BLOCK], rr_lastUpdate := 1,
              validProposals := 1, totalProposals := 1 \<rparr>)"
    by (simp add: recordEvent_def oneRecord_eval updateScore_def Let_def newRecord_def)
  have d1: "eventDelta getEventWeight oneRecord ''v'' PROPOSE_VALID_BLOCK = 0"
    by (simp add: eventDelta_def oneRecord_eval getEventWeight_def getEffectiveWeight_def)
  have d2: "eventDelta getEventWeight ?m ''v'' PROPOSE_VALID_BLOCK = 0"
    by (simp add: eventDelta_def after getEventWeight_def getEffectiveWeight_def)
  have final: "map_option getFinalReputation (?m ''v'') = Some (1/2)"
    by (simp add: after getFinalReputation_def newRecord_def)
  have sc: "getReputation ?m ''v'' = 1/2"
    by (simp add: after getReputation_def newRecord_def)
  from d1 d2 final sc show ?thesis by simp
qed
section \<open>Committee election: determinism\<close>

lemma electConsensusGroup_ignores_seed:
  "fst (electConsensusGroup sel candidates rsuNodes groupSize redundantCount seed) =
   fst (electConsensusGroup sel' candidates rsuNodes groupSize redundantCount seed')"
  by (simp add: electConsensusGroup_def)

text \<open>
  C4 (evaluation at the failing input). The election of the specification's scenario:
  candidates \<open>n1\<close> to \<open>n4\<close>, RSU \<open>n1\<close>, group size 2, one redundant node. Run twice with
  seed 42 the result is the same, so the operation is deterministic; but with seed 43
  the result is the same again, the empty committee, and by
  \<open>electConsensusGroup_ignores_seed\<close> this is so for every input and every pair of seeds:
  no seed change alters the output.
\<close>

theorem electConsensusGroup_seed_42_43:
  "fst (electConsensusGroup (newSelector 0) [''n1'', ''n2'', ''n3'', ''n4''] [''n1''] 2 1 42) =
     fst (electConsensusGroup (newSelector 0) [''n1'', ''n2'', ''n3'', ''n4''] [''n1''] 2 1 43) \<and>
   primaryNodes
     (fst (electConsensusGroup (newSelector 0) [''n1'', ''n2'', ''n3'', ''n4''] [''n1''] 2 1 43))
     = [] \<and>
   redundantNodes
     (fst (electConsensusGroup (newSelector 0) [''n1'', ''n2'', ''n3'', ''n4''] [''n1''] 2 1 43))
     = []"
  by (simp add: electConsensusGroup_def)

section \<open>Committee election: the RSU floor\<close>










end
